theory Spec2Isabelle
  imports Main "HOL-Library.Word" "HOL-Library.Signed_Division"
begin

unbundle bit_operations_syntax

section \<open>Machine types\<close>

text \<open>
  The sources use the fixed-width types of \<^verbatim>\<open>stdint.h\<close>. A value of type
  \<^verbatim>\<open>int32_t\<close> is a 32-bit word that is read in two's complement by \<^const>\<open>sint\<close>;
  the port registers of the MSP432 are 8 bits wide.
\<close>

type_synonym uint8_t = "8 word"
type_synonym uint32_t = "32 word"
type_synonym int32_t = "32 word"

text \<open>
  The C operator \<^verbatim>\<open>/\<close> on \<^verbatim>\<open>int32_t\<close> truncates towards zero. It has no defined result
  when the divisor is zero or when the quotient is not representable; the language calls
  both undefined behaviour, and neither is a fault that the program raises nor a value
  that it returns. The model keeps these two cases apart from every returned value.
\<close>

datatype c_undefined = Division_By_Zero | Division_Overflow

definition c_div :: "int32_t \<Rightarrow> int32_t \<Rightarrow> c_undefined + int32_t" where
  "c_div a b =
     (if b = 0 then Inl Division_By_Zero
      else if a = - (2 ^ 31) \<and> b = - 1 then Inl Division_Overflow
      else Inr (word_of_int (sint a sdiv sint b)))"


section \<open>Reflectance.c\<close>

subsection \<open>Sensor integration\<close>

text \<open>The local array \<^verbatim>\<open>w\<close> of \<^verbatim>\<open>Reflectance_Position\<close>.\<close>

definition w :: "int32_t list" where
  "w = [- 33400, - 23800, - 14300, - 4800, 4800, 14300, 23800, 33400]"

text \<open>
  The \<^verbatim>\<open>for\<close> loop of \<^verbatim>\<open>Reflectance_Position\<close>, entered with the counter \<open>i\<close> and the
  two accumulators. The counter runs from 0 to 8 and is kept as a natural number;
  \<^verbatim>\<open>b\<close> is an 8-bit value that is widened to 32 bits in both sums.
\<close>

function Position_loop ::
  "uint8_t \<Rightarrow> nat \<Rightarrow> int32_t \<Rightarrow> int32_t \<Rightarrow> int32_t \<times> int32_t" where
  "Position_loop data i weightsum bitsum =
     (if i < 8 then
        let b = drop_bit i data AND 1
        in Position_loop data (i + 1) (weightsum + ucast b * w ! i) (bitsum + ucast b)
      else (weightsum, bitsum))"
  by pat_completeness auto
termination
  by (relation "measure (\<lambda>(data, i, weightsum, bitsum). 8 - i)") auto

declare Position_loop.simps [simp del]

definition Reflectance_Position :: "uint8_t \<Rightarrow> c_undefined + int32_t" where
  "Reflectance_Position data =
     (case Position_loop data 0 0 0 of (weightsum, bitsum) \<Rightarrow> c_div weightsum bitsum)"


subsection \<open>The sensor ports\<close>

text \<open>
  The registers that the read operations write: the output registers of the two LED
  ports and the direction and output registers of port 7. Everything outside the
  registers that a measurement depends on (elapsed time, the charge of the sensor
  capacitors, the surface under the robot) is the component \<open>world\<close>, of an arbitrary
  type.
\<close>

record 'e reflectance_hw =
  P5_OUT :: uint8_t
  P9_OUT :: uint8_t
  P7_DIR :: uint8_t
  P7_OUT :: uint8_t
  world :: 'e

text \<open>
  Two parts of the platform are used by the file and declared outside it: the busy-wait
  of \<^verbatim>\<open>Clock.h\<close> and the input register \<^verbatim>\<open>P7->IN\<close> of \<^verbatim>\<open>msp432.h\<close>. Both are taken as
  parameters. \<open>elapse pf n s\<close> is the world after a wait of \<open>n\<close> microseconds that begins in
  the state \<open>s\<close>; \<open>P7_IN pf s\<close> is the level of the eight pins in the state \<open>s\<close>. Nothing is
  assumed of either: the pins may depend on the registers, on the time and on the history
  of the world in any way.
\<close>

record 'e platform =
  elapse :: "uint32_t \<Rightarrow> 'e reflectance_hw \<Rightarrow> 'e"
  P7_IN :: "'e reflectance_hw \<Rightarrow> uint8_t"

text \<open>
  Modelled from the spec: \<^verbatim>\<open>Clock_Delay1us\<close> is declared in \<^verbatim>\<open>Clock.h\<close> and its body is not
  part of these sources. It is the blocking busy-wait of the timing collaborator: it lets
  the given number of microseconds pass and writes no port register.
\<close>

definition Clock_Delay1us ::
  "'e platform \<Rightarrow> uint32_t \<Rightarrow> 'e reflectance_hw \<Rightarrow> 'e reflectance_hw" where
  "Clock_Delay1us pf n s = s\<lparr>world := elapse pf n s\<rparr>"

definition Reflectance_Read ::
  "'e platform \<Rightarrow> uint32_t \<Rightarrow> 'e reflectance_hw \<Rightarrow> uint8_t \<times> 'e reflectance_hw" where
  "Reflectance_Read pf time s0 =
     (let s1 = s0\<lparr>P5_OUT := P5_OUT s0 OR 0x08\<rparr>;
          s2 = s1\<lparr>P9_OUT := P9_OUT s1 OR 0x04\<rparr>;
          s3 = s2\<lparr>P7_DIR := 0xFF\<rparr>;
          s4 = s3\<lparr>P7_OUT := 0xFF\<rparr>;
          s5 = Clock_Delay1us pf 10 s4;
          s6 = s5\<lparr>P7_DIR := 0x00\<rparr>;
          s7 = Clock_Delay1us pf time s6;
          result = P7_IN pf s7;
          s8 = s7\<lparr>P5_OUT := P5_OUT s7 AND NOT 0x08\<rparr>;
          s9 = s8\<lparr>P9_OUT := P9_OUT s8 AND NOT 0x04\<rparr>
      in (result, s9))"

definition Reflectance_Center ::
  "'e platform \<Rightarrow> uint32_t \<Rightarrow> 'e reflectance_hw \<Rightarrow> uint8_t \<times> 'e reflectance_hw" where
  "Reflectance_Center pf time s0 =
     (let s1 = s0\<lparr>P5_OUT := P5_OUT s0 OR 0x08\<rparr>;
          s2 = s1\<lparr>P9_OUT := P9_OUT s1 OR 0x04\<rparr>;
          s3 = s2\<lparr>P7_DIR := 0xFF\<rparr>;
          s4 = s3\<lparr>P7_OUT := 0xFF\<rparr>;
          s5 = Clock_Delay1us pf 10 s4;
          s6 = s5\<lparr>P7_DIR := 0x00\<rparr>;
          s7 = Clock_Delay1us pf time s6;
          result = drop_bit 3 (P7_IN pf s7 AND 0x18);
          s8 = s7\<lparr>P5_OUT := P5_OUT s7 AND NOT 0x08\<rparr>;
          s9 = s8\<lparr>P9_OUT := P9_OUT s8 AND NOT 0x04\<rparr>
      in (result, s9))"

definition Reflectance_Start :: "'e platform \<Rightarrow> 'e reflectance_hw \<Rightarrow> 'e reflectance_hw" where
  "Reflectance_Start pf s0 =
     (let s1 = s0\<lparr>P5_OUT := P5_OUT s0 OR 0x08\<rparr>;
          s2 = s1\<lparr>P9_OUT := P9_OUT s1 OR 0x04\<rparr>;
          s3 = s2\<lparr>P7_DIR := 0xFF\<rparr>;
          s4 = s3\<lparr>P7_OUT := 0xFF\<rparr>;
          s5 = Clock_Delay1us pf 10 s4;
          s6 = s5\<lparr>P7_DIR := 0x00\<rparr>
      in s6)"

definition Reflectance_End ::
  "'e platform \<Rightarrow> 'e reflectance_hw \<Rightarrow> uint8_t \<times> 'e reflectance_hw" where
  "Reflectance_End pf s0 =
     (let result = P7_IN pf s0;
          s1 = s0\<lparr>P5_OUT := P5_OUT s0 AND NOT 0x08\<rparr>;
          s2 = s1\<lparr>P9_OUT := P9_OUT s1 AND NOT 0x04\<rparr>
      in (result, s2))"


section \<open>BumpInt.c\<close>

text \<open>
  The registers of port 4 that \<^verbatim>\<open>BumpInt_Init\<close> writes, the input register that holds the
  level of the switch pins, the two registers of the interrupt controller, and the global
  interrupt enable. The port registers are declared in \<^verbatim>\<open>msp.h\<close>; they are the registers of
  an 8-bit port. The fields of the interrupt controller hold the value that the assignment
  stores, at the 32 bits of the masks used.
\<close>

record bump_hw =
  P4_SEL0 :: uint8_t
  P4_SEL1 :: uint8_t
  P4_DIR :: uint8_t
  P4_REN :: uint8_t
  P4_OUT :: uint8_t
  P4_IES :: uint8_t
  P4_IFG :: uint8_t
  P4_IE :: uint8_t
  P4_IN :: uint8_t
  NVIC_IP_9 :: uint32_t
  NVIC_ISER_1 :: uint32_t
  interrupts_enabled :: bool

text \<open>
  Modelled from the spec: \<^verbatim>\<open>EnableInterrupts\<close> is declared outside these sources. It is the
  primitive that enables the global interrupt path, and it writes no port register.
\<close>

definition EnableInterrupts :: "bump_hw \<Rightarrow> bump_hw" where
  "EnableInterrupts s = s\<lparr>interrupts_enabled := True\<rparr>"

definition BumpInt_Init :: "bump_hw \<Rightarrow> bump_hw" where
  "BumpInt_Init s0 =
     (let s1 = s0\<lparr>P4_SEL0 := P4_SEL0 s0 AND NOT 0xED\<rparr>;
          s2 = s1\<lparr>P4_SEL1 := P4_SEL1 s1 AND NOT 0xED\<rparr>;
          s3 = s2\<lparr>P4_DIR := P4_DIR s2 AND NOT 0xED\<rparr>;
          s4 = s3\<lparr>P4_REN := P4_REN s3 OR 0xED\<rparr>;
          s5 = s4\<lparr>P4_OUT := P4_OUT s4 OR 0xED\<rparr>;
          s6 = s5\<lparr>P4_IES := P4_IES s5 OR 0xED\<rparr>;
          s7 = s6\<lparr>P4_IFG := P4_IFG s6 AND NOT 0xED\<rparr>;
          s8 = s7\<lparr>P4_IE := P4_IE s7 OR 0xED\<rparr>;
          s9 = s8\<lparr>NVIC_IP_9 := (NVIC_IP_9 s8 AND 0xFF0FFFFF) OR 0x00200000\<rparr>;
          s10 = s9\<lparr>NVIC_ISER_1 := 0x00000040\<rparr>
      in EnableInterrupts s10)"

text \<open>\<^verbatim>\<open>Bump_Read\<close> reads no register: its body is \<^verbatim>\<open>return 0\<close>.\<close>

definition Bump_Read :: "bump_hw \<Rightarrow> uint8_t" where
  "Bump_Read s = 0"

text \<open>
  For comparison, the read that the header comment of \<^verbatim>\<open>Bump_Read\<close> and the specification
  describe: the six pins 0, 2, 3, 5, 6 and 7 of the input register, inverted to positive
  logic and packed into bits 0 to 5.
\<close>

definition Bump_Read_spec :: "bump_hw \<Rightarrow> uint8_t" where
  "Bump_Read_spec s =
     (let x = NOT (P4_IN s)
      in (x AND 0x01) OR drop_bit 1 (x AND 0x0C) OR drop_bit 2 (x AND 0xE0))"


section \<open>The loop of \<^verbatim>\<open>Reflectance_Position\<close>\<close>

text \<open>\<^verbatim>\<open>b = (data>>i)&1\<close>, widened to 32 bits, is 1 or 0 as bit \<open>i\<close> of the snapshot is set or not.\<close>

lemma lsb_of_bool: "ucast (drop_bit i (d :: uint8_t) AND 1) = (of_bool (bit d i) :: int32_t)"
proof -
  have "drop_bit i d AND 1 = of_bool (bit d i)"
    by (simp only: and_one_eq mod_2_eq_odd bit_iff_odd_drop_bit)
  then show ?thesis by simp
qed

text \<open>
  The loop invariant: entered at \<open>i\<close>, the loop adds to the accumulators the weights and
  the number of the set bits from \<open>i\<close> to 7.
\<close>

lemma Position_loop_sums:
  "i \<le> 8 \<Longrightarrow> Position_loop data i weightsum bitsum =
     (weightsum + (\<Sum>k = i..<8. of_bool (bit data k) * w ! k),
      bitsum + (\<Sum>k = i..<8. of_bool (bit data k)))"
proof (induction data i weightsum bitsum rule: Position_loop.induct)
  case (1 data i weightsum bitsum)
  show ?case
  proof (cases "i < 8")
    case True
    then have "Position_loop data i weightsum bitsum =
        Position_loop data (i + 1) (weightsum + of_bool (bit data i) * w ! i)
          (bitsum + of_bool (bit data i))"
      by (subst Position_loop.simps) (simp only: Let_def lsb_of_bool if_True)
    also have "\<dots> = (weightsum + of_bool (bit data i) * w ! i
                        + (\<Sum>k = i + 1..<8. of_bool (bit data k) * w ! k),
                      bitsum + of_bool (bit data i) + (\<Sum>k = i + 1..<8. of_bool (bit data k)))"
      using "1.IH" [OF True refl] True by (simp add: lsb_of_bool)
    also have "\<dots> = (weightsum + (\<Sum>k = i..<8. of_bool (bit data k) * w ! k),
                      bitsum + (\<Sum>k = i..<8. of_bool (bit data k)))"
      by (simp only: sum.atLeast_Suc_lessThan [OF True] add.assoc Suc_eq_plus1)
    finally show ?thesis .
  next
    case False
    with "1.prems" have "i = 8" by simp
    then show ?thesis by (subst Position_loop.simps) simp
  qed
qed

lemma upt_0_8: "{0..<8::nat} = {0, 1, 2, 3, 4, 5, 6, 7}"
  by auto

lemma Position_loop_closed:
  "Position_loop data 0 0 0 =
    (of_bool (bit data 0) * w ! 0 + of_bool (bit data 1) * w ! 1 + of_bool (bit data 2) * w ! 2
       + of_bool (bit data 3) * w ! 3 + of_bool (bit data 4) * w ! 4 + of_bool (bit data 5) * w ! 5
       + of_bool (bit data 6) * w ! 6 + of_bool (bit data 7) * w ! 7,
     of_bool (bit data 0) + of_bool (bit data 1) + of_bool (bit data 2) + of_bool (bit data 3)
       + of_bool (bit data 4) + of_bool (bit data 5) + of_bool (bit data 6) + of_bool (bit data 7))"
  unfolding Position_loop_sums [of 0, simplified] upt_0_8
  by (simp add: add.assoc del: of_bool_eq_iff)

text \<open>A property of the indices below 8 is a property of each of the eight indices.\<close>

lemma all_less_8:
  "(\<forall>i<8. P i) \<longleftrightarrow> P 0 \<and> P 1 \<and> P 2 \<and> P 3 \<and> P 4 \<and> P 5 \<and> P 6 \<and> P (7 :: nat)"
proof -
  have "(\<forall>i<8. P i) \<longleftrightarrow> (\<forall>i \<in> {0..<8}. P i)"
    by auto
  then show ?thesis
    unfolding upt_0_8 by simp
qed

text \<open>A snapshot other than 0 has one of its eight bits set.\<close>

lemma u8_nonzero_bit:
  "(d :: uint8_t) \<noteq> 0 \<Longrightarrow>
     bit d 0 \<or> bit d 1 \<or> bit d 2 \<or> bit d 3 \<or> bit d 4 \<or> bit d 5 \<or> bit d 6 \<or> bit d 7"
proof (rule ccontr)
  assume nz: "d \<noteq> 0"
    and none: "\<not> (bit d 0 \<or> bit d 1 \<or> bit d 2 \<or> bit d 3 \<or> bit d 4 \<or> bit d 5 \<or> bit d 6 \<or> bit d 7)"
  from none have low: "\<forall>n<8. \<not> bit d n"
    unfolding all_less_8 by simp
  have "\<not> bit d n" for n
  proof (cases "n < 8")
    case True
    with low show ?thesis by simp
  next
    case False
    then show ?thesis by (auto dest: bit_imp_le_length)
  qed
  then have "d = 0" by (intro bit_eqI) simp
  with nz show False by contradiction
qed

lemma upt_0_7: "[0..<7] = [0, 1, 2, 3, 4, 5, 6]"
  by (simp add: eval_nat_numeral)

text \<open>
  The additions of the loop are 32-bit additions. For every snapshot the two sums that the
  loop returns are far inside the range of \<^verbatim>\<open>int32_t\<close>: they are the sums of the integers.
\<close>

lemma Position_sums_bounded:
  "case Position_loop data 0 0 0 of (weightsum, bitsum) \<Rightarrow>
     - 76300 \<le> sint weightsum \<and> sint weightsum \<le> 76300 \<and> 0 \<le> sint bitsum \<and> sint bitsum \<le> 8"
  unfolding Position_loop_closed
  by (cases "bit data 0"; cases "bit data 1"; cases "bit data 2"; cases "bit data 3";
      cases "bit data 4"; cases "bit data 5"; cases "bit data 6"; cases "bit data 7";
      simp add: w_def)


section \<open>The position estimate\<close>

text \<open>
  C1. For the snapshot with no bit set, \<^verbatim>\<open>Reflectance_Position\<close> should not divide by
  zero silently: it should raise a defined fault or return an explicit sentinel. The code
  does neither. With no bit set both sums are 0 when the loop ends, and the division
  \<^verbatim>\<open>weightsum/bitsum\<close> is reached with the divisor 0: no guard precedes it, and the
  division has no defined result.
\<close>

theorem Position_zero_snapshot_divides_by_zero:
  "Position_loop 0 0 0 0 = (0, 0) \<and> Reflectance_Position 0 = Inl Division_By_Zero"
  by (simp add: Reflectance_Position_def Position_loop_closed c_div_def)

text \<open>
  C2. For every snapshot with at least one bit set, the estimate of the mirrored snapshot
  (bit \<open>i\<close> set exactly when bit \<open>7 - i\<close> of the original is set) is the negation of the
  estimate of the original. Both calls return, and the negation is the negation of the
  signed value.
\<close>

theorem Position_mirror:
  assumes "data \<noteq> 0" and "\<forall>i<8. bit mirrored i \<longleftrightarrow> bit data (7 - i)"
  shows "\<exists>p. Reflectance_Position data = Inr p \<and> Reflectance_Position mirrored = Inr (- p)
           \<and> sint (- p) = - sint p"
proof -
  have m: "bit mirrored 0 = bit data 7" "bit mirrored 1 = bit data 6" "bit mirrored 2 = bit data 5"
    "bit mirrored 3 = bit data 4" "bit mirrored 4 = bit data 3" "bit mirrored 5 = bit data 2"
    "bit mirrored 6 = bit data 1" "bit mirrored 7 = bit data 0"
    using assms(2) by simp_all
  show ?thesis
    using u8_nonzero_bit [OF assms(1)]
    unfolding Reflectance_Position_def Position_loop_closed m
    by (cases "bit data 0"; cases "bit data 1"; cases "bit data 2"; cases "bit data 3";
        cases "bit data 4"; cases "bit data 5"; cases "bit data 6"; cases "bit data 7";
        simp add: w_def c_div_def signed_divide_int_def)
qed

text \<open>
  The snapshot 0x13 (bits 0, 1 and 4) and its mirror image 0xC8 (bits 7, 6 and 3): the
  estimates are -52400 / 3 and 52400 / 3, truncated towards zero.
\<close>

theorem Position_mirror_witness:
  "(0x13 :: uint8_t) \<noteq> 0
     \<and> Reflectance_Position 0x13 = Inr (- 17466) \<and> Reflectance_Position 0xC8 = Inr 17466"
proof -
  have h1: "(0x13 :: uint8_t) \<noteq> 0" by simp
  have h2: "\<forall>i<8. bit (0xC8 :: uint8_t) i \<longleftrightarrow> bit (0x13 :: uint8_t) (7 - i)"
    unfolding all_less_8 by simp
  have v: "Reflectance_Position 0x13 = Inr (- 17466)"
    by (simp add: Reflectance_Position_def Position_loop_closed c_div_def w_def signed_divide_int_def)
  from Position_mirror [OF h1 h2] v have "Reflectance_Position 0xC8 = Inr 17466"
    by simp
  with h1 v show ?thesis by simp
qed

text \<open>
  C3. For every \<open>i\<close> from 0 to 7, the snapshot with only bit \<open>i\<close> set makes
  \<^verbatim>\<open>Reflectance_Position\<close> return the weight \<open>w[i]\<close>; the snapshot with only bit 0 set
  gives -33400 and the snapshot with only bit 7 set gives 33400.
\<close>

theorem Position_single_bit:
  "(\<forall>i<8. Reflectance_Position (push_bit i 1) = Inr (w ! i))
     \<and> Reflectance_Position 0x01 = Inr (- 33400) \<and> Reflectance_Position 0x80 = Inr 33400"
  unfolding all_less_8
  by (simp add: Reflectance_Position_def Position_loop_closed c_div_def w_def)

theorem Position_single_bit_witness:
  "(3 :: nat) < 8 \<and> Reflectance_Position 0x08 = Inr (- 4800)"
proof -
  from Position_single_bit have "\<forall>i<8. Reflectance_Position (push_bit i 1) = Inr (w ! i)"
    by (rule conjunct1)
  then have "Reflectance_Position (push_bit 3 1) = Inr (w ! 3)"
    unfolding all_less_8 by (elim conjE)
  then show ?thesis
    by (simp add: w_def)
qed

text \<open>C4. \<^verbatim>\<open>Reflectance_Position\<close> applied to the snapshot 0xFF returns exactly 0.\<close>

theorem Position_all_bits_set: "Reflectance_Position 0xFF = Inr 0"
  by (simp add: Reflectance_Position_def Position_loop_closed c_div_def w_def)

text \<open>
  C9. For every snapshot with at least one bit set, \<^verbatim>\<open>Reflectance_Position\<close> returns, and
  the signed value returned lies between -33400 and 33400.
\<close>

theorem Position_in_range:
  assumes "data \<noteq> 0"
  shows "\<exists>p. Reflectance_Position data = Inr p \<and> - 33400 \<le> sint p \<and> sint p \<le> 33400"
  using u8_nonzero_bit [OF assms]
  unfolding Reflectance_Position_def Position_loop_closed
  by (cases "bit data 0"; cases "bit data 1"; cases "bit data 2"; cases "bit data 3";
      cases "bit data 4"; cases "bit data 5"; cases "bit data 6"; cases "bit data 7";
      simp add: w_def c_div_def signed_divide_int_def)

theorem Position_in_range_witness:
  "(0x70 :: uint8_t) \<noteq> 0 \<and> Reflectance_Position 0x70 = Inr 14300
     \<and> - 33400 \<le> sint (14300 :: int32_t) \<and> sint (14300 :: int32_t) \<le> 33400"
  using Position_in_range [of "0x70"]
  by (simp add: Reflectance_Position_def Position_loop_closed c_div_def w_def signed_divide_int_def)


section \<open>The weight table\<close>

text \<open>
  The steps of the table are not one constant: the first step is 9600 and the second
  is 9500.
\<close>

theorem w_not_evenly_spaced:
  "sint (w ! 1) - sint (w ! 0) \<noteq> sint (w ! 2) - sint (w ! 1)"
  by (simp add: w_def)

text \<open>
  C7, as the table has it. The weight table of \<^verbatim>\<open>Reflectance_Position\<close> is symmetric about
  zero (\<open>w[7-i] = -w[i]\<close> for every \<open>i\<close> from 0 to 7), it increases from -33400 to 33400, and
  the seven steps \<open>w[i+1] - w[i]\<close> are 9600, 9500, 9500, 9600, 9500, 9500 and 9600: each is
  9500 or 9600, not one constant.
\<close>

theorem w_symmetric_steps:
  "(\<forall>i<8. w ! (7 - i) = - (w ! i)) \<and>
   map sint w = [- 33400, - 23800, - 14300, - 4800, 4800, 14300, 23800, 33400] \<and>
   map (\<lambda>i. sint (w ! (i + 1)) - sint (w ! i)) [0..<7] = [9600, 9500, 9500, 9600, 9500, 9500, 9600]"
  unfolding all_less_8 upt_0_7 by (simp add: w_def)

theorem w_symmetric_steps_witness:
  "(2 :: nat) < 8 \<and> w ! (7 - 2) = - (w ! 2) \<and> sint (w ! 5) = 14300"
proof -
  from w_symmetric_steps have "\<forall>i<8. w ! (7 - i) = - (w ! i)"
    by (rule conjunct1)
  then have "w ! (7 - 2) = - (w ! 2)"
    unfolding all_less_8 by (elim conjE)
  then show ?thesis
    by (simp add: w_def)
qed


section \<open>Reading the sensors\<close>

text \<open>The two center bits, moved to the two low bits, as a code from 0 to 3.\<close>

lemma center_mask: "drop_bit 3 (p AND 0x18) = take_bit 2 (drop_bit 3 p)" for p :: uint8_t
proof -
  have "drop_bit 3 (p AND 0x18) = drop_bit 3 p AND 3"
    by simp
  also have "(3 :: uint8_t) = mask 2"
    by (simp add: mask_eq_exp_minus_1)
  finally show ?thesis
    by (simp only: take_bit_eq_mask)
qed

lemma center_code:
  "drop_bit 3 (p AND 0x18) =
     (if bit p 4 then (if bit p 3 then 3 else 2) else (if bit p 3 then 1 else 0))"
  for p :: uint8_t
proof (rule bit_eqI)
  fix n
  have lhs: "bit (drop_bit 3 (p AND 0x18)) n \<longleftrightarrow> n < 2 \<and> bit p (3 + n)"
    by (simp only: center_mask bit_take_bit_iff bit_drop_bit_eq comp_def)
  consider "n = 0" | "n = Suc 0" | m where "n = Suc (Suc m)"
    by (cases n rule: nat.exhaust; cases "n - 1") auto
  then show "bit (drop_bit 3 (p AND 0x18)) n =
      bit (if bit p 4 then (if bit p 3 then 3 else 2) else (if bit p 3 then 1 else 0) :: uint8_t) n"
    unfolding lhs by cases (simp_all add: bit_Suc)
qed

text \<open>
  C5. \<^verbatim>\<open>Reflectance_Center\<close> returns the two center sensor bits in the two low bits. With
  \<open>p\<close> the pin state that the call samples (the input register after the charge pulse and
  the wait), the result is \<open>(p & 0x18) >> 3\<close>: 0 when neither bit 3 nor bit 4 of \<open>p\<close> is
  set, 1 when only bit 3 is set, 2 when only bit 4 is set, and 3 when both are set.
\<close>

theorem Reflectance_Center_code:
  "(let p = P7_IN pf (Clock_Delay1us pf time (Reflectance_Start pf s));
        r = fst (Reflectance_Center pf time s)
    in r = drop_bit 3 (p AND 0x18) \<and>
       r = (if bit p 4 then (if bit p 3 then 3 else 2) else (if bit p 3 then 1 else 0)))"
  unfolding Let_def center_code [symmetric]
  by (simp add: Reflectance_Center_def Reflectance_Start_def Let_def)

text \<open>
  C6. For every wait \<open>t\<close>, every state of the registers and every behaviour of the pins,
  \<^verbatim>\<open>Reflectance_Start\<close>, then a wait of \<open>t\<close> microseconds, then \<^verbatim>\<open>Reflectance_End\<close> returns
  the snapshot that \<^verbatim>\<open>Reflectance_Read(t)\<close> returns and leaves the same final state (the
  LED outputs, the direction and the output register of port 7, and the world). The wait
  between the two calls is the busy-wait that \<^verbatim>\<open>Reflectance_Read\<close> itself uses.
\<close>

theorem Start_wait_End_is_Read:
  "Reflectance_End pf (Clock_Delay1us pf t (Reflectance_Start pf s)) = Reflectance_Read pf t s"
  by (simp add: Reflectance_End_def Reflectance_Start_def Reflectance_Read_def Let_def)


section \<open>The bump switches\<close>

text \<open>
  C8. \<^verbatim>\<open>Bump_Read\<close> returns 0 in every state of the six switch pins. It does not perform
  the read that its contract describes: with the switch on P4.0 pressed and the other five
  released (input register 0xEC), the contract gives 1 and the code gives 0.
\<close>

theorem Bump_Read_returns_zero:
  "Bump_Read s = 0 \<and> Bump_Read_spec (s\<lparr>P4_IN := 0xEC\<rparr>) = 1
     \<and> Bump_Read (s\<lparr>P4_IN := 0xEC\<rparr>) \<noteq> Bump_Read_spec (s\<lparr>P4_IN := 0xEC\<rparr>)"
  by (simp add: Bump_Read_def Bump_Read_spec_def)

text \<open>Clearing or setting the bits of a mask leaves the bits outside the mask as they were.\<close>

lemma keep_and: "(x AND NOT m) AND NOT m = x AND NOT (m :: uint8_t)"
  by (simp add: and.assoc)

lemma keep_or: "(x OR m) AND NOT m = x AND NOT (m :: uint8_t)"
  by (simp add: bit.conj_disj_distrib2)

lemma bit_keep_and: "\<not> bit m n \<Longrightarrow> n < 8 \<Longrightarrow> bit (x AND NOT m) n = bit x n" for m :: uint8_t
  by (simp add: bit_and_iff bit_not_iff)

lemma bit_keep_or: "\<not> bit m n \<Longrightarrow> bit (x OR m) n = bit x n" for m :: uint8_t
  by (simp add: bit_or_iff)

lemma bits_0xED:
  "bit (x AND NOT 0xED :: uint8_t) 1 = bit x 1" "bit (x AND NOT 0xED :: uint8_t) 4 = bit x 4"
  "bit (x OR 0xED :: uint8_t) 1 = bit x 1" "bit (x OR 0xED :: uint8_t) 4 = bit x 4"
  by (rule bit_keep_and bit_keep_or; simp)+

lemma BumpInt_Init_regs:
  "P4_SEL0 (BumpInt_Init s) = P4_SEL0 s AND NOT 0xED"
  "P4_SEL1 (BumpInt_Init s) = P4_SEL1 s AND NOT 0xED"
  "P4_DIR (BumpInt_Init s) = P4_DIR s AND NOT 0xED"
  "P4_REN (BumpInt_Init s) = P4_REN s OR 0xED"
  "P4_OUT (BumpInt_Init s) = P4_OUT s OR 0xED"
  "P4_IES (BumpInt_Init s) = P4_IES s OR 0xED"
  "P4_IFG (BumpInt_Init s) = P4_IFG s AND NOT 0xED"
  "P4_IE (BumpInt_Init s) = P4_IE s OR 0xED"
  unfolding BumpInt_Init_def EnableInterrupts_def Let_def by simp_all

text \<open>
  C10. \<^verbatim>\<open>BumpInt_Init\<close> changes only the bits 0, 2, 3, 5, 6 and 7 (mask 0xED) of the port 4
  registers SEL0, SEL1, DIR, REN, OUT, IES, IFG and IE: outside the mask each register is
  as before the call, that is, its bits 1 and 4 are unchanged.
\<close>

theorem BumpInt_Init_frame:
  "P4_SEL0 (BumpInt_Init s) AND NOT 0xED = P4_SEL0 s AND NOT 0xED \<and>
   P4_SEL1 (BumpInt_Init s) AND NOT 0xED = P4_SEL1 s AND NOT 0xED \<and>
   P4_DIR (BumpInt_Init s) AND NOT 0xED = P4_DIR s AND NOT 0xED \<and>
   P4_REN (BumpInt_Init s) AND NOT 0xED = P4_REN s AND NOT 0xED \<and>
   P4_OUT (BumpInt_Init s) AND NOT 0xED = P4_OUT s AND NOT 0xED \<and>
   P4_IES (BumpInt_Init s) AND NOT 0xED = P4_IES s AND NOT 0xED \<and>
   P4_IFG (BumpInt_Init s) AND NOT 0xED = P4_IFG s AND NOT 0xED \<and>
   P4_IE (BumpInt_Init s) AND NOT 0xED = P4_IE s AND NOT 0xED \<and>
   bit (P4_SEL0 (BumpInt_Init s)) 1 = bit (P4_SEL0 s) 1 \<and>
   bit (P4_SEL0 (BumpInt_Init s)) 4 = bit (P4_SEL0 s) 4 \<and>
   bit (P4_SEL1 (BumpInt_Init s)) 1 = bit (P4_SEL1 s) 1 \<and>
   bit (P4_SEL1 (BumpInt_Init s)) 4 = bit (P4_SEL1 s) 4 \<and>
   bit (P4_DIR (BumpInt_Init s)) 1 = bit (P4_DIR s) 1 \<and>
   bit (P4_DIR (BumpInt_Init s)) 4 = bit (P4_DIR s) 4 \<and>
   bit (P4_REN (BumpInt_Init s)) 1 = bit (P4_REN s) 1 \<and>
   bit (P4_REN (BumpInt_Init s)) 4 = bit (P4_REN s) 4 \<and>
   bit (P4_OUT (BumpInt_Init s)) 1 = bit (P4_OUT s) 1 \<and>
   bit (P4_OUT (BumpInt_Init s)) 4 = bit (P4_OUT s) 4 \<and>
   bit (P4_IES (BumpInt_Init s)) 1 = bit (P4_IES s) 1 \<and>
   bit (P4_IES (BumpInt_Init s)) 4 = bit (P4_IES s) 4 \<and>
   bit (P4_IFG (BumpInt_Init s)) 1 = bit (P4_IFG s) 1 \<and>
   bit (P4_IFG (BumpInt_Init s)) 4 = bit (P4_IFG s) 4 \<and>
   bit (P4_IE (BumpInt_Init s)) 1 = bit (P4_IE s) 1 \<and>
   bit (P4_IE (BumpInt_Init s)) 4 = bit (P4_IE s) 4"
  by (simp only: BumpInt_Init_regs keep_and keep_or bits_0xED simp_thms)

end
